theory Spec2Isabelle
  imports Main
begin

section \<open>Python values and exceptions\<close>

text \<open>
  The attributes of a configuration object are read dynamically (\<open>getattr\<close>), so their
  values are dynamically typed: an integer, a string, \<open>None\<close> or a list of strings.  An
  exception is
  a value of type \<open>error\<close>; a function that may raise returns \<open>error + 'a\<close>, with \<open>Inl\<close>
  for the exception.  \<open>AttributeError\<close> and \<open>KeyError\<close> carry the name that was looked up,
  \<open>RuntimeError\<close> its message.
\<close>

datatype pyval = VInt int | VStr string | VNone | VList "string list"

datatype error =
    AttributeError string
  | TypeError
  | KeyError string
  | ValueError
  | ValidationError
  | RuntimeError string

text \<open>\<open>str(n)\<close> of an integer: its decimal digits, with a minus sign when negative.\<close>

fun str_nat :: "nat \<Rightarrow> string" where
  "str_nat n = (if n < 10 then [''0123456789'' ! n]
                else str_nat (n div 10) @ [''0123456789'' ! (n mod 10)])"

declare str_nat.simps [simp del]

definition str_int :: "int \<Rightarrow> string" where
  "str_int i = (if i < 0 then CHR ''-'' # str_nat (nat (- i)) else str_nat (nat i))"

text \<open>\<open>range(v)\<close>: the integers \<open>0, ..., v - 1\<close>; a \<open>TypeError\<close> when \<open>v\<close> is no integer.\<close>

definition py_range :: "pyval \<Rightarrow> error + int list" where
  "py_range v = (case v of VInt n \<Rightarrow> Inr [0 .. n - 1] | _ \<Rightarrow> Inl TypeError)"

section \<open>Data model\<close>

text \<open>
  \<open>WeightInfo\<close> is a frozen pydantic model.  Only \<open>name\<close> is required; each other field
  has a default and the model remembers whether the field was given explicitly.  A field
  that was never set is \<open>None\<close> here (it reads as its default), a field that was set to
  \<open>v\<close> is \<open>Some v\<close>.  So the record is exactly what
  \<open>model_dump(mode="json", exclude_unset=True)\<close> returns, and \<open>model_validate\<close> of that
  dictionary gives the record back.
\<close>

record WeightInfo =
  name :: string
  is_embed :: "bool option"
  is_lm_head :: "bool option"
  input_space :: "string option option"
  output_space :: "string option option"
  optional :: "bool option"
  aliases :: "string list option option"

text \<open>The field \<open>type\<close> of a procedural space is the literal \<open>"residual"\<close>.\<close>

datatype space_type = residual

record ProceduralSpaceInfo =
  space_name :: string
  type :: space_type
  inputs :: "string list"

datatype descriptor = Weight WeightInfo | Space ProceduralSpaceInfo

record JSONLayerTemplates =
  weights :: "WeightInfo list"
  procedural_spaces :: "ProceduralSpaceInfo list option"

record JSONArchitectureDefinition =
  expected_model_type :: string
  def_architectures :: "string list"
  def_pre_weights :: "WeightInfo list"
  layer_templates :: JSONLayerTemplates
  def_post_weights :: "WeightInfo list"
  def_procedural_spaces :: "ProceduralSpaceInfo list option"
  def_num_layers_config_key :: "string option"

text \<open>
  The two implementations of the abstract class \<open>ArchitectureInfo\<close>: the declarative
  one holds a definition, the hardcoded one the number of experts.
\<close>

datatype ArchitectureInfo =
    JsonArchitectureInfo JSONArchitectureDefinition
  | MixtralTensorNames int

text \<open>
  A configuration: the declared architecture names (\<open>None\<close> when absent), the model type,
  and every other attribute by name.  \<open>getattr\<close> reads any of them: the two named
  attributes are always there, another attribute only if the configuration holds it.
\<close>

record PretrainedConfig =
  architectures :: "string list option"
  model_type :: string
  attrs :: "string \<rightharpoonup> pyval"

definition getattr :: "PretrainedConfig \<Rightarrow> string \<Rightarrow> error + pyval" where
  "getattr cfg key =
     (if key = ''architectures'' then
        Inr (case architectures cfg of None \<Rightarrow> VNone | Some names \<Rightarrow> VList names)
      else if key = ''model_type'' then Inr (VStr (model_type cfg))
      else (case attrs cfg key of None \<Rightarrow> Inl (AttributeError key) | Some v \<Rightarrow> Inr v))"

text \<open>
  A dictionary of overrides is an association list.  The test \<open>if self.overrides\<close> takes
  \<open>None\<close> and the empty dictionary as false; \<open>bound\<close> returns the dictionary when the test
  succeeds.
\<close>

type_synonym overrides = "(string \<times> string list) list option"

definition bound :: "overrides \<Rightarrow> (string \<times> string list) list option" where
  "bound ov = (case ov of None \<Rightarrow> None | Some d \<Rightarrow> if d = [] then None else Some d)"

record ConfiguredArchitectureInfo =
  info :: ArchitectureInfo
  config :: PretrainedConfig
  overrides :: overrides

record MappingInfo =
  start_architectures :: "string list"
  destination_architectures :: "string list"
  pre_weights_mapping :: "string \<rightharpoonup> string list"
  post_weights_mapping :: "string \<rightharpoonup> string list"

section \<open>Template substitution\<close>

text \<open>
  \<open>TemplateWithArithmetic\<close> is \<open>string.Template\<close> with the identifier pattern
  \<open>(?a:[_a-z][_a-z0-9]*([+-]1)?)\<close>, matched case-insensitively over ASCII as
  \<open>string.Template\<close> compiles its pattern.  \<open>match_id\<close> matches the identifier pattern at
  the head of a text and returns the identifier with the rest of the text; the match is
  greedy.
\<close>

definition is_id_start :: "char \<Rightarrow> bool" where
  "is_id_start c = (c \<in> set ''_abcdefghijklmnopqrstuvwxyzABCDEFGHIJKLMNOPQRSTUVWXYZ'')"

definition is_id_char :: "char \<Rightarrow> bool" where
  "is_id_char c = (is_id_start c \<or> c \<in> set ''0123456789'')"

fun match_id :: "string \<Rightarrow> (string \<times> string) option" where
  "match_id [] = None"
| "match_id (c # cs) =
     (if is_id_start c then
        (let body = takeWhile is_id_char cs; rest = dropWhile is_id_char cs in
         case rest of
           s # d # rest' \<Rightarrow>
             if (s = CHR ''+'' \<or> s = CHR ''-'') \<and> d = CHR ''1''
             then Some (c # body @ [s, d], rest')
             else Some (c # body, rest)
         | _ \<Rightarrow> Some (c # body, rest))
      else None)"

text \<open>
  What follows a delimiter \<open>$\<close>, in the order of the alternatives of the pattern: a second
  delimiter (the escape), an identifier, a braced identifier, or anything else (invalid).
\<close>

datatype token = Escaped | Named string | Braced string | Invalid

definition match_delimited :: "string \<Rightarrow> token \<times> string" where
  "match_delimited cs =
     (case cs of
        [] \<Rightarrow> (Invalid, cs)
      | d # cs' \<Rightarrow>
          if d = CHR ''$'' then (Escaped, cs')
          else (case match_id cs of
                  Some (named, rest) \<Rightarrow> (Named named, rest)
                | None \<Rightarrow>
                    if d = CHR ''{'' then
                      (case match_id cs' of
                         Some (braced, r) \<Rightarrow>
                           (case r of
                              [] \<Rightarrow> (Invalid, cs)
                            | b # rest \<Rightarrow>
                                if b = CHR ''}'' then (Braced braced, rest) else (Invalid, cs))
                       | None \<Rightarrow> (Invalid, cs))
                    else (Invalid, cs)))"

text \<open>
  \<open>Template.substitute\<close>: the text is scanned from the left; each delimiter is replaced
  by what its match stands for, \<open>str\<close> of the table entry for an identifier.  An
  identifier without entry raises \<open>KeyError\<close>, an invalid delimiter \<open>ValueError\<close>; the
  leftmost failure is the one raised.
\<close>

function Template_substitute :: "(string \<rightharpoonup> int) \<Rightarrow> string \<Rightarrow> error + string" where
  "Template_substitute mapping [] = Inr []"
| "Template_substitute mapping (c # cs) =
     (if c \<noteq> CHR ''$'' then
        (case Template_substitute mapping cs of Inl e \<Rightarrow> Inl e | Inr out \<Rightarrow> Inr (c # out))
      else
        (case match_delimited cs of
           (Escaped, rest) \<Rightarrow>
             (case Template_substitute mapping rest of
                Inl e \<Rightarrow> Inl e | Inr out \<Rightarrow> Inr (CHR ''$'' # out))
         | (Named named, rest) \<Rightarrow>
             (case mapping named of
                None \<Rightarrow> Inl (KeyError named)
              | Some v \<Rightarrow>
                  (case Template_substitute mapping rest of
                     Inl e \<Rightarrow> Inl e | Inr out \<Rightarrow> Inr (str_int v @ out)))
         | (Braced braced, rest) \<Rightarrow>
             (case mapping braced of
                None \<Rightarrow> Inl (KeyError braced)
              | Some v \<Rightarrow>
                  (case Template_substitute mapping rest of
                     Inl e \<Rightarrow> Inl e | Inr out \<Rightarrow> Inr (str_int v @ out)))
         | (Invalid, rest) \<Rightarrow> Inl ValueError))"
  by pat_completeness auto
termination
proof -
  have suffix: "length r \<le> m"
    if "length rest \<le> m"
      and "(case rest of
              s # d # rest' \<Rightarrow> if P s d then Some (a s d, rest') else Some (b, rest)
            | _ \<Rightarrow> Some (b, rest)) = Some (n, r)"
    for rest r :: string and m P and a :: "char \<Rightarrow> char \<Rightarrow> string" and b n
    using that by (auto split: list.splits if_splits)
  have id_len: "length r < length s" if m: "match_id s = Some (n, r)" for s n r
  proof (cases s)
    case Nil
    with m show ?thesis by simp
  next
    case (Cons c cs)
    have "length r \<le> length cs"
    proof (rule suffix [OF length_dropWhile_le])
      from m Cons show "(case dropWhile is_id_char cs of
          s # d # rest' \<Rightarrow>
            if (s = CHR ''+'' \<or> s = CHR ''-'') \<and> d = CHR ''1''
            then Some (c # takeWhile is_id_char cs @ [s, d], rest')
            else Some (c # takeWhile is_id_char cs, dropWhile is_id_char cs)
        | _ \<Rightarrow> Some (c # takeWhile is_id_char cs, dropWhile is_id_char cs)) = Some (n, r)"
        by (simp add: Let_def split: if_splits)
    qed
    with Cons show ?thesis by simp
  qed
  have del_len: "length rest \<le> length cs" if "(t, rest) = match_delimited cs" for t rest cs
    using that
    by (auto simp: match_delimited_def simp del: match_id.simps
             split: list.splits if_splits option.splits dest!: id_len)
  show ?thesis
    by (relation "measure (\<lambda>(mapping, s). length s)") (auto dest: del_len)
qed

text \<open>
  The loop of \<open>_substitute\<close> over one dumped value: only a string that contains an opening
  brace is handed to the template.
\<close>

definition substitute_str :: "(string \<rightharpoonup> int) \<Rightarrow> string \<Rightarrow> error + string" where
  "substitute_str table v =
     (if CHR ''{'' \<in> set v then Template_substitute table v else Inr v)"

text \<open>The same for an optional string field: unset and \<open>None\<close> are no strings.\<close>

definition substitute_opt ::
  "(string \<rightharpoonup> int) \<Rightarrow> string option option \<Rightarrow> error + string option option" where
  "substitute_opt table f =
     (case f of
        Some (Some v) \<Rightarrow>
          (case substitute_str table v of
             Inl e \<Rightarrow> Inl e | Inr v' \<Rightarrow> Inr (Some (Some v')))
      | _ \<Rightarrow> Inr f)"

section \<open>The declarative architecture\<close>

text \<open>
  The base class reads the number of layers from the attribute \<open>num_hidden_layers\<close>;
  \<open>JsonArchitectureInfo\<close> overrides the method and returns the field of its definition as
  it is, \<open>None\<close> when the definition does not give it.
\<close>

definition ArchitectureInfo_num_layers_config_key :: "string option" where
  "ArchitectureInfo_num_layers_config_key = Some ''num_hidden_layers''"

definition JsonArchitectureInfo_num_layers_config_key ::
  "JSONArchitectureDefinition \<Rightarrow> string option" where
  "JsonArchitectureInfo_num_layers_config_key defn =
     def_num_layers_config_key defn"

text \<open>
  \<open>ArchitectureInfo.num_layers\<close>, given the key the implementation returns:
  \<open>getattr(config, None)\<close> raises \<open>TypeError\<close>, a missing attribute \<open>AttributeError\<close>.
\<close>

definition ArchitectureInfo_num_layers ::
  "string option \<Rightarrow> PretrainedConfig \<Rightarrow> error + pyval" where
  "ArchitectureInfo_num_layers key cfg =
     (case key of None \<Rightarrow> Inl TypeError | Some k \<Rightarrow> getattr cfg k)"

text \<open>
  The dictionary \<open>substitutions\<close> of \<open>_substitute\<close> for an integer layer count: the three
  entries of the layer count, updated with the three of the layer index when one is given.
\<close>

definition substitution_table :: "int \<Rightarrow> int option \<Rightarrow> (string \<rightharpoonup> int)" where
  "substitution_table num_layers layer_idx =
     map_of [(''num_layers'', num_layers),
             (''num_layers+1'', num_layers + 1),
             (''num_layers-1'', num_layers - 1)]
     ++ (case layer_idx of
           None \<Rightarrow> Map.empty
         | Some i \<Rightarrow> map_of [(''layer_index'', i),
                              (''layer_index+1'', i + 1),
                              (''layer_index-1'', i - 1)])"

text \<open>
  The first lines of \<open>_substitute\<close>: the layer count is read, and \<open>num_layers + 1\<close> raises
  \<open>TypeError\<close> unless it is an integer.
\<close>

definition substitutions ::
  "JSONArchitectureDefinition \<Rightarrow> PretrainedConfig \<Rightarrow> int option \<Rightarrow> error + (string \<rightharpoonup> int)" where
  "substitutions defn cfg layer_idx =
     (case ArchitectureInfo_num_layers
             (JsonArchitectureInfo_num_layers_config_key defn) cfg of
        Inl e \<Rightarrow> Inl e
      | Inr (VInt num_layers) \<Rightarrow> Inr (substitution_table num_layers layer_idx)
      | Inr _ \<Rightarrow> Inl TypeError)"

text \<open>
  \<open>_substitute\<close> on a weight descriptor: the explicitly set fields in the order of their
  declaration; the strings among them are \<open>name\<close>, \<open>input_space\<close> and \<open>output_space\<close>
  (\<open>aliases\<close> is a list and is not touched).
\<close>

definition substitute_WeightInfo ::
  "JSONArchitectureDefinition \<Rightarrow> WeightInfo \<Rightarrow> PretrainedConfig \<Rightarrow> int option
     \<Rightarrow> error + WeightInfo" where
  "substitute_WeightInfo defn item cfg layer_idx =
     (case substitutions defn cfg layer_idx of
        Inl e \<Rightarrow> Inl e
      | Inr tbl \<Rightarrow>
          (case substitute_str tbl (name item) of
             Inl e \<Rightarrow> Inl e
           | Inr n \<Rightarrow>
               (case substitute_opt tbl (input_space item) of
                  Inl e \<Rightarrow> Inl e
                | Inr i \<Rightarrow>
                    (case substitute_opt tbl (output_space item) of
                       Inl e \<Rightarrow> Inl e
                     | Inr out \<Rightarrow>
                         Inr (item\<lparr>name := n, input_space := i, output_space := out\<rparr>)))))"

text \<open>On a procedural space: \<open>name\<close> and the literal \<open>type\<close> are strings, \<open>inputs\<close> is a list.\<close>

definition substitute_ProceduralSpaceInfo ::
  "JSONArchitectureDefinition \<Rightarrow> ProceduralSpaceInfo \<Rightarrow> PretrainedConfig \<Rightarrow> int option
     \<Rightarrow> error + ProceduralSpaceInfo" where
  "substitute_ProceduralSpaceInfo defn item cfg layer_idx =
     (case substitutions defn cfg layer_idx of
        Inl e \<Rightarrow> Inl e
      | Inr tbl \<Rightarrow>
          (case substitute_str tbl (space_name item) of
             Inl e \<Rightarrow> Inl e
           | Inr n \<Rightarrow>
               (case substitute_str tbl ''residual'' of
                  Inl e \<Rightarrow> Inl e
                | Inr t \<Rightarrow>
                    if t = ''residual'' then Inr (item\<lparr>space_name := n\<rparr>)
                    else Inl ValidationError)))"

definition substitute ::
  "JSONArchitectureDefinition \<Rightarrow> descriptor \<Rightarrow> PretrainedConfig \<Rightarrow> int option
     \<Rightarrow> error + descriptor" where
  "substitute defn item cfg layer_idx =
     (case item of
        Weight w \<Rightarrow>
          (case substitute_WeightInfo defn w cfg layer_idx of
             Inl e \<Rightarrow> Inl e | Inr w' \<Rightarrow> Inr (Weight w'))
      | Space s \<Rightarrow>
          (case substitute_ProceduralSpaceInfo defn s cfg layer_idx of
             Inl e \<Rightarrow> Inl e | Inr s' \<Rightarrow> Inr (Space s')))"

text \<open>The list comprehensions over \<open>_substitute\<close>: the first failure is raised.\<close>

fun substitute_each ::
  "JSONArchitectureDefinition \<Rightarrow> WeightInfo list \<Rightarrow> PretrainedConfig \<Rightarrow> int option
     \<Rightarrow> error + WeightInfo list" where
  "substitute_each defn [] cfg layer_idx = Inr []"
| "substitute_each defn (wi # wis) cfg layer_idx =
     (case substitute_WeightInfo defn wi cfg layer_idx of
        Inl e \<Rightarrow> Inl e
      | Inr w \<Rightarrow>
          (case substitute_each defn wis cfg layer_idx of
             Inl e \<Rightarrow> Inl e | Inr ws \<Rightarrow> Inr (w # ws)))"

text \<open>
  \<open>JsonArchitectureInfo\<close> declares one field, \<open>definition\<close>, and neither of its base
  classes has an attribute \<open>overrides\<close> (the field of that name belongs to
  \<open>ConfiguredArchitectureInfo\<close>).  Reading \<open>self.overrides\<close> in \<open>pre_weights\<close> and
  \<open>post_weights\<close> therefore raises \<open>AttributeError\<close>.
\<close>

definition JsonArchitectureInfo_overrides ::
  "JSONArchitectureDefinition \<Rightarrow> error + overrides" where
  "JsonArchitectureInfo_overrides defn = Inl (AttributeError ''overrides'')"

text \<open>The comprehension \<open>[wi for wi in weights if wi.name in self.overrides[key]]\<close>.\<close>

fun filter_overrides ::
  "(string \<times> string list) list \<Rightarrow> string \<Rightarrow> WeightInfo list \<Rightarrow> error + WeightInfo list" where
  "filter_overrides ov key [] = Inr []"
| "filter_overrides ov key (wi # wis) =
     (case map_of ov key of
        None \<Rightarrow> Inl (KeyError key)
      | Some names \<Rightarrow>
          (case filter_overrides ov key wis of
             Inl e \<Rightarrow> Inl e
           | Inr kept \<Rightarrow> Inr (if name wi \<in> set names then wi # kept else kept)))"

definition JsonArchitectureInfo_pre_weights ::
  "JSONArchitectureDefinition \<Rightarrow> PretrainedConfig \<Rightarrow> error + WeightInfo list" where
  "JsonArchitectureInfo_pre_weights defn cfg =
     (case substitute_each defn (def_pre_weights defn) cfg None of
        Inl e \<Rightarrow> Inl e
      | Inr ws \<Rightarrow>
          (case JsonArchitectureInfo_overrides defn of
             Inl e \<Rightarrow> Inl e
           | Inr ov \<Rightarrow>
               (case bound ov of
                  None \<Rightarrow> Inr ws
                | Some d \<Rightarrow> filter_overrides d ''pre_weights'' ws)))"

definition JsonArchitectureInfo_layer_weights ::
  "JSONArchitectureDefinition \<Rightarrow> int \<Rightarrow> PretrainedConfig \<Rightarrow> error + WeightInfo list" where
  "JsonArchitectureInfo_layer_weights defn index cfg =
     substitute_each defn (weights (layer_templates defn)) cfg (Some index)"

definition JsonArchitectureInfo_post_weights ::
  "JSONArchitectureDefinition \<Rightarrow> PretrainedConfig \<Rightarrow> error + WeightInfo list" where
  "JsonArchitectureInfo_post_weights defn cfg =
     (case substitute_each defn (def_post_weights defn) cfg None of
        Inl e \<Rightarrow> Inl e
      | Inr ws \<Rightarrow>
          (case JsonArchitectureInfo_overrides defn of
             Inl e \<Rightarrow> Inl e
           | Inr ov \<Rightarrow>
               (case bound ov of
                  None \<Rightarrow> Inr ws
                | Some d \<Rightarrow> filter_overrides d ''post_weights'' ws)))"

section \<open>The hardcoded mixture-of-experts architecture\<close>

definition ARCHITECTURE_NAME :: string where
  "ARCHITECTURE_NAME = ''MixtralForCausalLM''"

text \<open>\<open>WeightInfo(name=n)\<close>: no other field is set.\<close>

definition WeightInfo_named :: "string \<Rightarrow> WeightInfo" where
  "WeightInfo_named n =
     \<lparr>name = n, is_embed = None, is_lm_head = None, input_space = None,
      output_space = None, optional = None, aliases = None\<rparr>"

text \<open>
  \<open>from_config\<close> reads \<open>num_local_experts\<close>; the model validates it as an integer.  An
  integer passes, \<open>None\<close> and a list are refused.  A string is converted as the validation
  library converts numeric strings: that conversion is the argument \<open>int_of_str\<close>.
\<close>

definition from_config ::
  "(string \<Rightarrow> int option) \<Rightarrow> PretrainedConfig \<Rightarrow> error + ArchitectureInfo" where
  "from_config int_of_str cfg =
     (case getattr cfg ''num_local_experts'' of
        Inl e \<Rightarrow> Inl e
      | Inr (VInt n) \<Rightarrow> Inr (MixtralTensorNames n)
      | Inr (VStr text) \<Rightarrow>
          (case int_of_str text of
             None \<Rightarrow> Inl ValidationError
           | Some n \<Rightarrow> Inr (MixtralTensorNames n))
      | Inr _ \<Rightarrow> Inl ValidationError)"

definition MixtralTensorNames_layer_weights :: "int \<Rightarrow> int \<Rightarrow> WeightInfo list" where
  "MixtralTensorNames_layer_weights num_local_experts index =
     (let num_experts = num_local_experts;
          prefix = ''model.layers.'' @ str_int index;
          tensor_names =
            concat (map (\<lambda>expert_idx.
                      map (\<lambda>param. prefix @ ''.block_sparse_moe.experts.''
                                        @ str_int expert_idx @ ''.'' @ param @ ''.weight'')
                        [''w1'', ''w2'', ''w3''])
                    [0 .. num_experts - 1])
            @ [prefix @ ''.block_sparse_moe.gate.weight'']
      in map WeightInfo_named tensor_names)"

section \<open>The methods of an architecture\<close>

text \<open>
  Method dispatch over the two implementations.  \<open>MISTRAL_INFO\<close> is the definition loaded
  from the bundled resource \<open>mistral.json\<close>, to which the hardcoded architecture
  delegates.
\<close>

fun num_layers_config_key ::
  "JSONArchitectureDefinition \<Rightarrow> ArchitectureInfo \<Rightarrow> string option" where
  "num_layers_config_key MISTRAL_INFO (JsonArchitectureInfo defn) =
     JsonArchitectureInfo_num_layers_config_key defn"
| "num_layers_config_key MISTRAL_INFO (MixtralTensorNames num_local_experts) =
     JsonArchitectureInfo_num_layers_config_key MISTRAL_INFO"

definition num_layers ::
  "JSONArchitectureDefinition \<Rightarrow> ArchitectureInfo \<Rightarrow> PretrainedConfig \<Rightarrow> error + pyval" where
  "num_layers MISTRAL_INFO self cfg =
     ArchitectureInfo_num_layers (num_layers_config_key MISTRAL_INFO self) cfg"

fun pre_weights ::
  "JSONArchitectureDefinition \<Rightarrow> ArchitectureInfo \<Rightarrow> PretrainedConfig
     \<Rightarrow> error + WeightInfo list" where
  "pre_weights MISTRAL_INFO (JsonArchitectureInfo defn) cfg =
     JsonArchitectureInfo_pre_weights defn cfg"
| "pre_weights MISTRAL_INFO (MixtralTensorNames num_local_experts) cfg =
     JsonArchitectureInfo_pre_weights MISTRAL_INFO cfg"

fun post_weights ::
  "JSONArchitectureDefinition \<Rightarrow> ArchitectureInfo \<Rightarrow> PretrainedConfig
     \<Rightarrow> error + WeightInfo list" where
  "post_weights MISTRAL_INFO (JsonArchitectureInfo defn) cfg =
     JsonArchitectureInfo_post_weights defn cfg"
| "post_weights MISTRAL_INFO (MixtralTensorNames num_local_experts) cfg =
     JsonArchitectureInfo_post_weights MISTRAL_INFO cfg"

fun layer_weights ::
  "ArchitectureInfo \<Rightarrow> int \<Rightarrow> PretrainedConfig \<Rightarrow> error + WeightInfo list" where
  "layer_weights (JsonArchitectureInfo defn) index cfg =
     JsonArchitectureInfo_layer_weights defn index cfg"
| "layer_weights (MixtralTensorNames num_local_experts) index cfg =
     Inr (MixtralTensorNames_layer_weights num_local_experts index)"

text \<open>The loop of \<open>all_weights\<close> over the layer indices, extending the result.\<close>

fun extend_layers ::
  "(int \<Rightarrow> error + WeightInfo list) \<Rightarrow> int list \<Rightarrow> WeightInfo list
     \<Rightarrow> error + WeightInfo list" where
  "extend_layers lw [] res = Inr res"
| "extend_layers lw (layer_idx # rest) res =
     (case lw layer_idx of
        Inl e \<Rightarrow> Inl e
      | Inr ws \<Rightarrow> extend_layers lw rest (res @ ws))"

text \<open>
  \<open>ArchitectureInfo.all_weights\<close>, written in the base class over the methods of the
  implementation, which are its first four arguments here.
\<close>

definition ArchitectureInfo_all_weights ::
  "(PretrainedConfig \<Rightarrow> error + pyval) \<Rightarrow>
   (PretrainedConfig \<Rightarrow> error + WeightInfo list) \<Rightarrow>
   (int \<Rightarrow> PretrainedConfig \<Rightarrow> error + WeightInfo list) \<Rightarrow>
   (PretrainedConfig \<Rightarrow> error + WeightInfo list) \<Rightarrow>
   PretrainedConfig \<Rightarrow> error + WeightInfo list" where
  "ArchitectureInfo_all_weights nl pre lw post cfg =
     (case nl cfg of
        Inl e \<Rightarrow> Inl e
      | Inr n \<Rightarrow>
          (case pre cfg of
             Inl e \<Rightarrow> Inl e
           | Inr res \<Rightarrow>
               (case py_range n of
                  Inl e \<Rightarrow> Inl e
                | Inr indices \<Rightarrow>
                    (case extend_layers (\<lambda>layer_idx. lw layer_idx cfg) indices res of
                       Inl e \<Rightarrow> Inl e
                     | Inr res' \<Rightarrow>
                         (case post cfg of
                            Inl e \<Rightarrow> Inl e
                          | Inr ws \<Rightarrow> Inr (res' @ ws))))))"

definition all_weights ::
  "JSONArchitectureDefinition \<Rightarrow> ArchitectureInfo \<Rightarrow> PretrainedConfig
     \<Rightarrow> error + WeightInfo list" where
  "all_weights MISTRAL_INFO self cfg =
     ArchitectureInfo_all_weights (num_layers MISTRAL_INFO self) (pre_weights MISTRAL_INFO self)
       (layer_weights self) (post_weights MISTRAL_INFO self) cfg"

section \<open>The configured architecture\<close>

text \<open>
  With overrides bound, \<open>pre_weights\<close> and \<open>post_weights\<close> of a configured architecture
  return the entry of the override dictionary, a list of names; without, the descriptors
  of the architecture.  The result holds either.
\<close>

datatype weight_or_name = Descriptor WeightInfo | Name string

definition ConfiguredArchitectureInfo_pre_weights ::
  "JSONArchitectureDefinition \<Rightarrow> ConfiguredArchitectureInfo \<Rightarrow> error + weight_or_name list" where
  "ConfiguredArchitectureInfo_pre_weights MISTRAL_INFO self =
     (case bound (overrides self) of
        None \<Rightarrow>
          (case pre_weights MISTRAL_INFO (info self) (config self) of
             Inl e \<Rightarrow> Inl e | Inr ws \<Rightarrow> Inr (map Descriptor ws))
      | Some d \<Rightarrow>
          (case map_of d ''pre_weights'' of
             None \<Rightarrow> Inl (KeyError ''pre_weights'')
           | Some names \<Rightarrow> Inr (map Name names)))"

definition ConfiguredArchitectureInfo_post_weights ::
  "JSONArchitectureDefinition \<Rightarrow> ConfiguredArchitectureInfo \<Rightarrow> error + weight_or_name list" where
  "ConfiguredArchitectureInfo_post_weights MISTRAL_INFO self =
     (case bound (overrides self) of
        None \<Rightarrow>
          (case post_weights MISTRAL_INFO (info self) (config self) of
             Inl e \<Rightarrow> Inl e | Inr ws \<Rightarrow> Inr (map Descriptor ws))
      | Some d \<Rightarrow>
          (case map_of d ''post_weights'' of
             None \<Rightarrow> Inl (KeyError ''post_weights'')
           | Some names \<Rightarrow> Inr (map Name names)))"

definition ConfiguredArchitectureInfo_all_weights ::
  "JSONArchitectureDefinition \<Rightarrow> ConfiguredArchitectureInfo \<Rightarrow> error + WeightInfo list" where
  "ConfiguredArchitectureInfo_all_weights MISTRAL_INFO self =
     all_weights MISTRAL_INFO (info self) (config self)"

section \<open>Resolving the architecture of a configuration\<close>

text \<open>
  \<open>NAME_TO_ARCH\<close> is built once from the loaded definitions: each name a definition
  declares is mapped to the definitions declaring it, in loading order.  The resolver
  takes the table as an argument, after the conversion that \<open>from_config\<close> needs.  \<open>len(None)\<close> raises \<open>TypeError\<close>; the loop over the
  candidates returns the first whose model type is the one of the configuration.
\<close>

fun index_names ::
  "JSONArchitectureDefinition \<Rightarrow> string list \<Rightarrow> (string \<rightharpoonup> JSONArchitectureDefinition list)
     \<Rightarrow> (string \<rightharpoonup> JSONArchitectureDefinition list)" where
  "index_names arch_info [] name_to_arch = name_to_arch"
| "index_names arch_info (n # ns) name_to_arch =
     index_names arch_info ns
       (name_to_arch(n \<mapsto> (case name_to_arch n of None \<Rightarrow> [] | Some l \<Rightarrow> l) @ [arch_info]))"

definition load_all_architectures ::
  "JSONArchitectureDefinition list
     \<Rightarrow> JSONArchitectureDefinition list \<times> (string \<rightharpoonup> JSONArchitectureDefinition list)" where
  "load_all_architectures archs =
     (archs, fold (\<lambda>arch_info. index_names arch_info (def_architectures arch_info)) archs Map.empty)"

definition load_architecture_info ::
  "(string \<Rightarrow> int option) \<Rightarrow> (string \<rightharpoonup> JSONArchitectureDefinition list)
     \<Rightarrow> PretrainedConfig \<Rightarrow> error + ArchitectureInfo" where
  "load_architecture_info int_of_str NAME_TO_ARCH cfg =
     (case architectures cfg of
        None \<Rightarrow> Inl TypeError
      | Some archs \<Rightarrow>
          if length archs \<noteq> 1 then Inl (RuntimeError ''More than one architecture in config?'')
          else
            (let arch_name = archs ! 0 in
             if arch_name = ARCHITECTURE_NAME then from_config int_of_str cfg
             else
               (case NAME_TO_ARCH arch_name of
                  None \<Rightarrow> Inl (RuntimeError (''Unsupported architecture '' @ arch_name))
                | Some candidates \<Rightarrow>
                    if length candidates = 1 then Inr (JsonArchitectureInfo (candidates ! 0))
                    else
                      (case find (\<lambda>c. expected_model_type c = model_type cfg) candidates of
                         Some c \<Rightarrow> Inr (JsonArchitectureInfo c)
                       | None \<Rightarrow>
                           Inl (RuntimeError
                                 (''Unsupported model_type '' @ model_type cfg
                                  @ '' for architecture '' @ arch_name))))))"

section \<open>The mapping table\<close>

text \<open>
  \<open>mapping\<close> is a \<open>MappingInfo\<close>, a pydantic model, which defines no subscript: the
  expression \<open>mapping["pre_weights"]\<close> raises \<open>TypeError\<close> whatever the key.
\<close>

definition MappingInfo_getitem ::
  "MappingInfo \<Rightarrow> string \<Rightarrow> error + (string \<rightharpoonup> string list)" where
  "MappingInfo_getitem mapping key = Inl TypeError"

type_synonym mappings = "string \<rightharpoonup> (string \<rightharpoonup> (string \<rightharpoonup> string list))"

fun add_destinations ::
  "MappingInfo \<Rightarrow> string \<Rightarrow> string list \<Rightarrow> mappings \<Rightarrow> error + mappings" where
  "add_destinations mapping start_architecture [] mappings = Inr mappings"
| "add_destinations mapping start_architecture (destination_architecture # rest) mappings =
     (case mappings start_architecture of
        None \<Rightarrow> Inl (KeyError start_architecture)
      | Some inner \<Rightarrow>
          if inner destination_architecture = None then
            (case MappingInfo_getitem mapping ''pre_weights'' of
               Inl e \<Rightarrow> Inl e
             | Inr pre \<Rightarrow>
                 (case pre ''destination'' of
                    None \<Rightarrow> Inl (KeyError ''destination'')
                  | Some pre_ws \<Rightarrow>
                      (case MappingInfo_getitem mapping ''post_weights'' of
                         Inl e \<Rightarrow> Inl e
                       | Inr post \<Rightarrow>
                           (case post ''destination'' of
                              None \<Rightarrow> Inl (KeyError ''destination'')
                            | Some post_ws \<Rightarrow>
                                add_destinations mapping start_architecture rest
                                  (mappings(start_architecture \<mapsto>
                                     inner(destination_architecture \<mapsto>
                                       map_of [(''pre_weights'', pre_ws),
                                               (''post_weights'', post_ws)])))))))
          else add_destinations mapping start_architecture rest mappings)"

fun add_starts :: "MappingInfo \<Rightarrow> string list \<Rightarrow> mappings \<Rightarrow> error + mappings" where
  "add_starts mapping [] mappings = Inr mappings"
| "add_starts mapping (start_architecture # rest) mappings =
     (case add_destinations mapping start_architecture (destination_architectures mapping)
             (if mappings start_architecture = None
              then mappings(start_architecture \<mapsto> Map.empty) else mappings) of
        Inl e \<Rightarrow> Inl e
      | Inr mappings' \<Rightarrow> add_starts mapping rest mappings')"

fun add_files :: "MappingInfo list \<Rightarrow> mappings \<Rightarrow> error + mappings" where
  "add_files [] mappings = Inr mappings"
| "add_files (mapping # rest) mappings =
     (case add_starts mapping (start_architectures mapping) mappings of
        Inl e \<Rightarrow> Inl e
      | Inr mappings' \<Rightarrow> add_files rest mappings')"

text \<open>\<open>_load_all_mappings\<close> over the parsed mapping resources, in listing order.\<close>

definition load_all_mappings :: "MappingInfo list \<Rightarrow> error + mappings" where
  "load_all_mappings files = add_files files Map.empty"

section \<open>Example inputs\<close>

text \<open>
  A definition with the given model type, one architecture name, pre-weights of the given
  names, one layer template, one post-weight and the given layer-count key; and a
  configuration declaring one architecture name.
\<close>

definition example_definition ::
  "string \<Rightarrow> string \<Rightarrow> string list \<Rightarrow> string option \<Rightarrow> JSONArchitectureDefinition" where
  "example_definition t arch pre_names key =
     \<lparr>expected_model_type = t, def_architectures = [arch],
      def_pre_weights = map WeightInfo_named pre_names,
      layer_templates =
        \<lparr>weights = [WeightInfo_named ''model.layers.${layer_index}.mlp.weight''],
         procedural_spaces = None\<rparr>,
      def_post_weights = [WeightInfo_named ''lm_head.weight''],
      def_procedural_spaces = None,
      def_num_layers_config_key = key\<rparr>"

definition example_config ::
  "string \<Rightarrow> string \<Rightarrow> (string \<times> pyval) list \<Rightarrow> PretrainedConfig" where
  "example_config arch t kvs =
     \<lparr>architectures = Some [arch], model_type = t, attrs = map_of kvs\<rparr>"

definition llama :: JSONArchitectureDefinition where
  "llama = example_definition ''llama'' ''LlamaForCausalLM'' [''model.embed_tokens.weight'']
             (Some ''num_hidden_layers'')"

definition mistral :: JSONArchitectureDefinition where
  "mistral = example_definition ''mistral'' ''MistralForCausalLM'' [''model.embed_tokens.weight'']
               (Some ''num_hidden_layers'')"

definition llama_config :: "pyval \<Rightarrow> PretrainedConfig" where
  "llama_config n = example_config ''LlamaForCausalLM'' ''llama'' [(''num_hidden_layers'', n)]"

lemmas example_defs =
  example_definition_def example_config_def WeightInfo_named_def llama_def mistral_def
  llama_config_def

section \<open>Template substitution: lemmas\<close>

lemma Template_substitute_plain:
  "CHR ''$'' \<notin> set s \<Longrightarrow> Template_substitute tbl s = Inr s"
  by (induction s) auto

lemma Template_substitute_prefix:
  "CHR ''$'' \<notin> set pre \<Longrightarrow>
   Template_substitute tbl (pre @ s) =
     (case Template_substitute tbl s of Inl e \<Rightarrow> Inl e | Inr out \<Rightarrow> Inr (pre @ out))"
  by (induction pre) (auto split: sum.splits)

lemma match_delimited_braced:
  assumes "k \<in> set [''num_layers'', ''num_layers+1'', ''num_layers-1'',
                      ''layer_index'', ''layer_index+1'', ''layer_index-1'']"
  shows "match_delimited (CHR ''{'' # k @ CHR ''}'' # rest) = (Braced k, rest)"
proof -
  have "list_all (\<lambda>k. match_delimited (CHR ''{'' # k @ CHR ''}'' # rest) = (Braced k, rest))
          [''num_layers'', ''num_layers+1'', ''num_layers-1'',
           ''layer_index'', ''layer_index+1'', ''layer_index-1'']"
    by (simp add: match_delimited_def is_id_start_def is_id_char_def Let_def
          split: list.split)
  then have "\<forall>k \<in> set [''num_layers'', ''num_layers+1'', ''num_layers-1'',
                          ''layer_index'', ''layer_index+1'', ''layer_index-1''].
               match_delimited (CHR ''{'' # k @ CHR ''}'' # rest) = (Braced k, rest)"
    by (simp only: list_all_iff)
  then show ?thesis using assms by (rule bspec)
qed

lemma match_delimited_named:
  assumes "k \<in> set [''num_layers+1'', ''num_layers-1'', ''layer_index+1'', ''layer_index-1'']"
  shows "match_delimited (k @ rest) = (Named k, rest)"
proof -
  have "list_all (\<lambda>k. match_delimited (k @ rest) = (Named k, rest))
          [''num_layers+1'', ''num_layers-1'', ''layer_index+1'', ''layer_index-1'']"
    by (simp add: match_delimited_def is_id_start_def is_id_char_def)
  then have "\<forall>k \<in> set [''num_layers+1'', ''num_layers-1'', ''layer_index+1'',
                          ''layer_index-1''].
               match_delimited (k @ rest) = (Named k, rest)"
    by (simp only: list_all_iff)
  then show ?thesis using assms by (rule bspec)
qed

lemma Template_substitute_braced:
  assumes k: "k \<in> set [''num_layers'', ''num_layers+1'', ''num_layers-1'',
                        ''layer_index'', ''layer_index+1'', ''layer_index-1'']"
    and v: "tbl k = Some v"
    and pre: "CHR ''$'' \<notin> set pre"
    and suf: "Template_substitute tbl suf = Inr suf'"
  shows "Template_substitute tbl (pre @ ''${'' @ k @ ''}'' @ suf) = Inr (pre @ str_int v @ suf')"
proof -
  have "Template_substitute tbl (CHR ''$'' # CHR ''{'' # k @ CHR ''}'' # suf)
          = Inr (str_int v @ suf')"
    using match_delimited_braced [OF k, of suf] v suf by simp
  then show ?thesis
    by (simp add: Template_substitute_prefix [OF pre])
qed

lemma Template_substitute_named:
  assumes k: "k \<in> set [''num_layers+1'', ''num_layers-1'', ''layer_index+1'', ''layer_index-1'']"
    and v: "tbl k = Some v"
    and pre: "CHR ''$'' \<notin> set pre"
    and suf: "Template_substitute tbl suf = Inr suf'"
  shows "Template_substitute tbl (pre @ ''$'' @ k @ suf) = Inr (pre @ str_int v @ suf')"
proof -
  have "Template_substitute tbl (CHR ''$'' # k @ suf) = Inr (str_int v @ suf')"
    using match_delimited_named [OF k, of suf] v suf by simp
  then show ?thesis
    by (simp add: Template_substitute_prefix [OF pre])
qed

lemma substitution_table_entry:
  assumes "(k, v) \<in> set ([(''num_layers'', N), (''num_layers+1'', N + 1), (''num_layers-1'', N - 1)]
             @ (case idx of
                  None \<Rightarrow> []
                | Some i \<Rightarrow> [(''layer_index'', i), (''layer_index+1'', i + 1),
                              (''layer_index-1'', i - 1)]))"
  shows "substitution_table N idx k = Some v"
    and "k \<in> set [''num_layers'', ''num_layers+1'', ''num_layers-1'',
                    ''layer_index'', ''layer_index+1'', ''layer_index-1'']"
  using assms by (cases idx; auto simp: substitution_table_def)+

lemma substitution_table_dom:
  "dom (substitution_table N None) = {''num_layers'', ''num_layers+1'', ''num_layers-1''}"
  "dom (substitution_table N (Some i)) =
     {''num_layers'', ''num_layers+1'', ''num_layers-1'',
      ''layer_index'', ''layer_index+1'', ''layer_index-1''}"
  by (auto simp: substitution_table_def)

lemma substitute_str_untouched:
  "CHR ''$'' \<notin> set s \<or> CHR ''{'' \<notin> set s \<Longrightarrow> substitute_str tbl s = Inr s"
  by (auto simp: substitute_str_def Template_substitute_plain)

lemma substitute_opt_untouched:
  "(\<And>s. f = Some (Some s) \<Longrightarrow> CHR ''$'' \<notin> set s \<or> CHR ''{'' \<notin> set s)
     \<Longrightarrow> substitute_opt tbl f = Inr f"
  by (simp add: substitute_opt_def substitute_str_untouched split: option.splits)

lemma substitutions_readable:
  assumes "num_layers M (JsonArchitectureInfo defn) cfg = Inr (VInt N)"
  shows "substitutions defn cfg layer_idx = Inr (substitution_table N layer_idx)"
  using assms by (simp add: substitutions_def num_layers_def)

lemma str_int_digit: "str_int 1 = ''1''" "str_int 2 = ''2''" "str_int 3 = ''3''"
  by (simp_all add: str_int_def str_nat.simps)

section \<open>Weight enumeration: lemmas\<close>

text \<open>
  What \<open>all_weights\<close> of the base class computes from the lists its methods return: the
  pre-weights, the weights of the layers \<open>0, ..., N - 1\<close> in this order, the post-weights.
\<close>

lemma extend_layers_append:
  "\<forall>i \<in> set idxs. lw i = Inr (ls i) \<Longrightarrow>
   extend_layers lw idxs res = Inr (res @ concat (map ls idxs))"
  by (induction idxs arbitrary: res) simp_all

lemma ArchitectureInfo_all_weights_order:
  assumes "nl cfg = Inr (VInt N)" and "pre cfg = Inr ps" and "post cfg = Inr qs"
    and "\<forall>i \<in> {0 .. N - 1}. lw i cfg = Inr (ls i)"
  shows "ArchitectureInfo_all_weights nl pre lw post cfg
           = Inr (ps @ concat (map ls [0 .. N - 1]) @ qs)"
proof -
  have "extend_layers (\<lambda>layer_idx. lw layer_idx cfg) [0 .. N - 1] ps
          = Inr (ps @ concat (map ls [0 .. N - 1]))"
    using assms(4) by (intro extend_layers_append) simp
  with assms(1-3) show ?thesis
    by (simp add: ArchitectureInfo_all_weights_def py_range_def)
qed

lemma substitute_each_length:
  "substitute_each defn wis cfg layer_idx = Inr ws \<Longrightarrow> length ws = length wis"
  by (induction wis arbitrary: ws) (auto split: sum.splits)

lemma ArchitectureInfo_all_weights_length:
  assumes "nl cfg = Inr (VInt N)" and "pre cfg = Inr ps" and "post cfg = Inr qs"
    and "\<forall>i \<in> {0 .. N - 1}. lw i cfg = Inr (ls i)"
    and "\<forall>i \<in> {0 .. N - 1}. length (ls i) = L" and "0 \<le> N"
  shows "\<exists>ws. ArchitectureInfo_all_weights nl pre lw post cfg = Inr ws
              \<and> length ws = length ps + nat N * L + length qs"
proof -
  have "length (concat (map ls idxs)) = length idxs * L"
    if "\<forall>i \<in> set idxs. length (ls i) = L" for idxs
    using that by (induction idxs) simp_all
  from this [of "[0 .. N - 1]"] assms(5,6)
  have "length (concat (map ls [0 .. N - 1])) = nat N * L"
    by simp
  moreover have "ArchitectureInfo_all_weights nl pre lw post cfg
                   = Inr (ps @ concat (map ls [0 .. N - 1]) @ qs)"
    using assms(1-4) by (rule ArchitectureInfo_all_weights_order)
  ultimately show ?thesis
    by simp
qed

text \<open>
  The methods of the declarative architecture never get that far: \<open>pre_weights\<close> raises
  in every call, at the latest when it reads \<open>self.overrides\<close>, and so does \<open>all_weights\<close>
  of either implementation.
\<close>

lemma JsonArchitectureInfo_pre_weights_raises:
  "\<exists>e. JsonArchitectureInfo_pre_weights defn cfg = Inl e"
  by (simp add: JsonArchitectureInfo_pre_weights_def JsonArchitectureInfo_overrides_def
           split: sum.splits)

lemma all_weights_raises: "\<exists>e. all_weights M self cfg = Inl e"
proof -
  have "\<exists>e. pre_weights M self cfg = Inl e"
    by (cases self) (simp_all add: JsonArchitectureInfo_pre_weights_raises)
  then show ?thesis
    by (auto simp: all_weights_def ArchitectureInfo_all_weights_def split: sum.splits)
qed

lemma ConfiguredArchitectureInfo_pre_weights_bound:
  assumes "overrides self = Some d" and "d \<noteq> []" and "map_of d ''pre_weights'' = Some names"
  shows "ConfiguredArchitectureInfo_pre_weights M self = Inr (map Name names)"
  using assms by (simp add: ConfiguredArchitectureInfo_pre_weights_def bound_def)

lemma num_layers_key_unset:
  "def_num_layers_config_key defn = None \<Longrightarrow>
   num_layers M (JsonArchitectureInfo defn) cfg = Inl TypeError"
  by (simp add: num_layers_def ArchitectureInfo_num_layers_def
        JsonArchitectureInfo_num_layers_config_key_def)

lemma expert_names_map:
  "map h (concat (map (\<lambda>e. map (f e) [a, b, c]) xs) @ [z])
     = concat (map (\<lambda>e. [h (f e a), h (f e b), h (f e c)]) xs) @ [h z]"
  by (induction xs) simp_all

lemma expert_names_length:
  "length (map h (concat (map (\<lambda>e. map (f e) [a, b, c]) xs) @ [z])) = 3 * length xs + 1"
  by (induction xs) simp_all

section \<open>Claims\<close>

text \<open>
  C1.  Full weight enumeration of a definition with \<open>P\<close> pre-weight, \<open>L\<close> layer and \<open>Q\<close>
  post-weight templates and \<open>N\<close> layers, no override bound, should return the \<open>P + N * L + Q\<close>
  descriptors in the order pre, layers ascending, post.  The code does not: for a
  definition with one template of each kind and a configuration with two layers,
  \<open>all_weights\<close> raises the \<open>AttributeError\<close> of \<open>self.overrides\<close> instead of returning four
  descriptors, called on the architecture or on the configured architecture without
  overrides.
\<close>

theorem all_weights_reads_missing_overrides:
  "all_weights mistral (JsonArchitectureInfo llama) (llama_config (VInt 2))
     = Inl (AttributeError ''overrides'')
   \<and> ConfiguredArchitectureInfo_all_weights mistral
       \<lparr>info = JsonArchitectureInfo llama, config = llama_config (VInt 2), overrides = None\<rparr>
     = Inl (AttributeError ''overrides'')"
  by (simp add: example_defs ConfiguredArchitectureInfo_all_weights_def all_weights_def
        ArchitectureInfo_all_weights_def num_layers_def ArchitectureInfo_num_layers_def JsonArchitectureInfo_num_layers_config_key_def getattr_def
        JsonArchitectureInfo_pre_weights_def substitute_WeightInfo_def substitutions_def
        substitution_table_def substitute_str_def substitute_opt_def JsonArchitectureInfo_overrides_def)

text \<open>
  C2.  With an override bound, \<open>pre_weights\<close> of a configured architecture should return
  the descriptors of the definition whose name is in the override list.  The code
  returns the override list itself: for a definition with the three pre-weight names
  \<open>a\<close>, \<open>b\<close>, \<open>c\<close> and an override listing \<open>a\<close>, the result is the name \<open>a\<close>, not a
  descriptor.
\<close>

theorem configured_pre_weights_returns_names:
  "ConfiguredArchitectureInfo_pre_weights mistral
     \<lparr>info = JsonArchitectureInfo
               (example_definition ''llama'' ''LlamaForCausalLM'' [''a'', ''b'', ''c'']
                  (Some ''num_hidden_layers'')),
      config = llama_config (VInt 2),
      overrides = Some [(''pre_weights'', [''a'']), (''post_weights'', [''lm_head.weight''])]\<rparr>
   = Inr [Name ''a'']
   \<and> ConfiguredArchitectureInfo_pre_weights mistral
     \<lparr>info = JsonArchitectureInfo
               (example_definition ''llama'' ''LlamaForCausalLM'' [''a'', ''b'', ''c'']
                  (Some ''num_hidden_layers'')),
      config = llama_config (VInt 2),
      overrides = Some [(''pre_weights'', [''a'']), (''post_weights'', [''lm_head.weight''])]\<rparr>
   \<noteq> Inr [Descriptor (WeightInfo_named ''a'')]"
  by (simp add: ConfiguredArchitectureInfo_pre_weights_def bound_def)

text \<open>
  C3, as stated, fails for the name of the hardcoded architecture: a configuration
  declaring \<open>MixtralForCausalLM\<close> gets the hardcoded architecture even when two definitions
  declare that name and one of them has the model type of the configuration.
\<close>

theorem load_architecture_info_special_case_first:
  "snd (load_all_architectures
          [example_definition ''a'' ''MixtralForCausalLM'' [] None,
           example_definition ''b'' ''MixtralForCausalLM'' [] None]) ''MixtralForCausalLM''
     = Some [example_definition ''a'' ''MixtralForCausalLM'' [] None,
             example_definition ''b'' ''MixtralForCausalLM'' [] None]
   \<and> expected_model_type (example_definition ''a'' ''MixtralForCausalLM'' [] None) = ''a''
   \<and> load_architecture_info Map.empty
        (snd (load_all_architectures
                [example_definition ''a'' ''MixtralForCausalLM'' [] None,
                 example_definition ''b'' ''MixtralForCausalLM'' [] None]))
        (example_config ''MixtralForCausalLM'' ''a'' [(''num_local_experts'', VInt 8)])
      = Inr (MixtralTensorNames 8)
   \<and> load_architecture_info Map.empty
        (snd (load_all_architectures
                [example_definition ''a'' ''MixtralForCausalLM'' [] None,
                 example_definition ''b'' ''MixtralForCausalLM'' [] None]))
        (example_config ''MixtralForCausalLM'' ''a'' [(''num_local_experts'', VInt 8)])
      \<noteq> Inr (JsonArchitectureInfo (example_definition ''a'' ''MixtralForCausalLM'' [] None))"
  by (simp add: load_all_architectures_def load_architecture_info_def example_definition_def
        example_config_def ARCHITECTURE_NAME_def from_config_def getattr_def)

text \<open>
  C3, amended.  For a configuration whose single declared architecture name is not the
  name of the hardcoded architecture and is served by more than one definition, the
  resolver returns the first candidate whose expected model type is the model type of the
  configuration (the only one when the model types of the candidates differ), and raises
  the unsupported-model-type error when no candidate has that model type.
\<close>

theorem load_architecture_info_multiple:
  assumes "architectures cfg = Some [arch_name]"
    and "arch_name \<noteq> ARCHITECTURE_NAME"
    and "NAME_TO_ARCH arch_name = Some candidates"
    and "1 < length candidates"
  shows "load_architecture_info int_of_str NAME_TO_ARCH cfg =
           (case find (\<lambda>c. expected_model_type c = model_type cfg) candidates of
              Some c \<Rightarrow> Inr (JsonArchitectureInfo c)
            | None \<Rightarrow> Inl (RuntimeError (''Unsupported model_type '' @ model_type cfg
                                          @ '' for architecture '' @ arch_name)))"
  using assms by (simp add: load_architecture_info_def)

theorem load_architecture_info_multiple_witness:
  "load_architecture_info Map.empty
     (map_of [(''X'', [example_definition ''a'' ''X'' [] None,
                       example_definition ''b'' ''X'' [] None])])
     (example_config ''X'' ''a'' [])
     = Inr (JsonArchitectureInfo (example_definition ''a'' ''X'' [] None))
   \<and> load_architecture_info Map.empty
     (map_of [(''X'', [example_definition ''a'' ''X'' [] None,
                       example_definition ''b'' ''X'' [] None])])
     (example_config ''X'' ''c'' [])
     = Inl (RuntimeError ''Unsupported model_type c for architecture X'')"
  using load_architecture_info_multiple
          [of "example_config ''X'' ''a'' []" "''X''"
              "map_of [(''X'', [example_definition ''a'' ''X'' [] None,
                                example_definition ''b'' ''X'' [] None])]"
              "[example_definition ''a'' ''X'' [] None, example_definition ''b'' ''X'' [] None]"
              "Map.empty"]
        load_architecture_info_multiple
          [of "example_config ''X'' ''c'' []" "''X''"
              "map_of [(''X'', [example_definition ''a'' ''X'' [] None,
                                example_definition ''b'' ''X'' [] None])]"
              "[example_definition ''a'' ''X'' [] None, example_definition ''b'' ''X'' [] None]"
              "Map.empty"]
  by (simp add: example_definition_def example_config_def ARCHITECTURE_NAME_def)

text \<open>
  C4.  For a layer index \<open>L\<close> and an expert count \<open>E\<close>, the per-layer weights of the
  hardcoded architecture are, for each expert \<open>0, ..., E - 1\<close> in turn, the descriptors of
  its tensors \<open>w1\<close>, \<open>w2\<close>, \<open>w3\<close>, and then the descriptor of the routing gate:
  \<open>3 * E + 1\<close> descriptors.  \<open>E\<close> is the attribute \<open>num_local_experts\<close> of the configuration
  the architecture was built from.
\<close>

theorem MixtralTensorNames_layer_weights_count:
  assumes "0 \<le> E"
  shows "layer_weights (MixtralTensorNames E) L cfg =
           Inr (concat (map (\<lambda>e.
                  [WeightInfo_named (''model.layers.'' @ str_int L
                      @ ''.block_sparse_moe.experts.'' @ str_int e @ ''.w1.weight''),
                   WeightInfo_named (''model.layers.'' @ str_int L
                      @ ''.block_sparse_moe.experts.'' @ str_int e @ ''.w2.weight''),
                   WeightInfo_named (''model.layers.'' @ str_int L
                      @ ''.block_sparse_moe.experts.'' @ str_int e @ ''.w3.weight'')])
                  [0 .. E - 1])
                @ [WeightInfo_named (''model.layers.'' @ str_int L
                      @ ''.block_sparse_moe.gate.weight'')])
         \<and> int (length (MixtralTensorNames_layer_weights E L)) = 3 * E + 1
         \<and> (attrs cfg ''num_local_experts'' = Some (VInt E)
              \<longrightarrow> from_config int_of_str cfg = Inr (MixtralTensorNames E))"
proof (intro conjI)
  show "layer_weights (MixtralTensorNames E) L cfg =
           Inr (concat (map (\<lambda>e.
                  [WeightInfo_named (''model.layers.'' @ str_int L
                      @ ''.block_sparse_moe.experts.'' @ str_int e @ ''.w1.weight''),
                   WeightInfo_named (''model.layers.'' @ str_int L
                      @ ''.block_sparse_moe.experts.'' @ str_int e @ ''.w2.weight''),
                   WeightInfo_named (''model.layers.'' @ str_int L
                      @ ''.block_sparse_moe.experts.'' @ str_int e @ ''.w3.weight'')])
                  [0 .. E - 1])
                @ [WeightInfo_named (''model.layers.'' @ str_int L
                      @ ''.block_sparse_moe.gate.weight'')])"
    unfolding layer_weights.simps MixtralTensorNames_layer_weights_def Let_def expert_names_map
    by simp
  have "length (MixtralTensorNames_layer_weights E L) = 3 * length [0 .. E - 1] + 1"
    unfolding MixtralTensorNames_layer_weights_def Let_def by (rule expert_names_length)
  with assms show "int (length (MixtralTensorNames_layer_weights E L)) = 3 * E + 1"
    by simp
  show "attrs cfg ''num_local_experts'' = Some (VInt E)
          \<longrightarrow> from_config int_of_str cfg = Inr (MixtralTensorNames E)"
    by (simp add: from_config_def getattr_def)
qed

theorem MixtralTensorNames_layer_weights_count_witness:
  "(0::int) \<le> 8
   \<and> from_config Map.empty (example_config ''MixtralForCausalLM'' ''mixtral''
                     [(''num_local_experts'', VInt 8)]) = Inr (MixtralTensorNames 8)
   \<and> length (MixtralTensorNames_layer_weights 8 2) = 25"
  using MixtralTensorNames_layer_weights_count
          [of 8 2 "example_config ''MixtralForCausalLM'' ''mixtral'' [(''num_local_experts'', VInt 8)]"
              "Map.empty", THEN conjunct2]
  by (simp add: example_config_def)

text \<open>
  C5.  A definition that gives no layer-count key should have its layer count read from
  the conventional attribute \<open>num_hidden_layers\<close>, as the base class does.  The code
  does not: for such a definition \<open>num_layers\<close> raises \<open>TypeError\<close> although the
  configuration holds \<open>num_hidden_layers = 2\<close>, which the method of the base class reads.
\<close>

theorem num_layers_without_key_raises:
  "num_layers mistral
     (JsonArchitectureInfo (example_definition ''llama'' ''LlamaForCausalLM'' [] None))
     (llama_config (VInt 2))
     = Inl TypeError
   \<and> ArchitectureInfo_num_layers ArchitectureInfo_num_layers_config_key (llama_config (VInt 2))
     = Inr (VInt 2)"
  by (simp add: example_defs num_layers_def ArchitectureInfo_num_layers_def
        JsonArchitectureInfo_num_layers_config_key_def getattr_def
        ArchitectureInfo_num_layers_config_key_def)

text \<open>
  C6.  A pair of a source and a destination architecture of a mapping resource should be
  in the loaded table, with the destination-side weight names of the resource.  The code
  does not build the table: for one resource with one source and one destination name,
  \<open>_load_all_mappings\<close> raises \<open>TypeError\<close>.
\<close>

theorem load_all_mappings_raises:
  "load_all_mappings
     [\<lparr>start_architectures = [''LlamaForCausalLM''],
       destination_architectures = [''MistralForCausalLM''],
       pre_weights_mapping = map_of [(''destination'', [''model.embed_tokens.weight''])],
       post_weights_mapping = map_of [(''destination'', [''lm_head.weight''])]\<rparr>]
   = Inl TypeError"
  by (simp add: load_all_mappings_def MappingInfo_getitem_def)


text \<open>
  C7, as stated, fails for a string field without an opening brace and for a list field.
  \<open>$layer_index+1\<close> is a placeholder of the template class, which gives \<open>i + 1\<close> for it,
  but \<open>_substitute\<close> hands a string to the template only when the string contains an
  opening brace, and hands no list to it: with four layers and the layer index 2, the name
  \<open>model.layers.$layer_index+1\<close> and the alias \<open>model.layers.${layer_index+1}.w\<close> come
  back as they are.
\<close>

theorem substitute_skips_string_without_brace:
  "num_layers mistral (JsonArchitectureInfo llama) (llama_config (VInt 4)) = Inr (VInt 4)
   \<and> Template_substitute (substitution_table 4 (Some 2)) ''model.layers.$layer_index+1''
      = Inr ''model.layers.3''
   \<and> substitute llama (Weight (WeightInfo_named ''model.layers.$layer_index+1''))
        (llama_config (VInt 4)) (Some 2)
      = Inr (Weight (WeightInfo_named ''model.layers.$layer_index+1''))
   \<and> substitute llama (Weight (WeightInfo_named ''model.layers.$layer_index+1''))
        (llama_config (VInt 4)) (Some 2)
      \<noteq> Inr (Weight (WeightInfo_named ''model.layers.3''))
   \<and> substitute llama
        (Weight ((WeightInfo_named ''lm_head.weight'')
                   \<lparr>aliases := Some (Some [''model.layers.${layer_index+1}.w''])\<rparr>))
        (llama_config (VInt 4)) (Some 2)
      = Inr (Weight ((WeightInfo_named ''lm_head.weight'')
                   \<lparr>aliases := Some (Some [''model.layers.${layer_index+1}.w''])\<rparr>))"
proof -
  have h: "num_layers mistral (JsonArchitectureInfo llama) (llama_config (VInt 4)) = Inr (VInt 4)"
    by (simp add: example_defs num_layers_def ArchitectureInfo_num_layers_def
          JsonArchitectureInfo_num_layers_config_key_def getattr_def)
  have t: "substitutions llama (llama_config (VInt 4)) (Some 2) = Inr (substitution_table 4 (Some 2))"
    using h by (rule substitutions_readable)
  have "Template_substitute (substitution_table 4 (Some 2)) (''model.layers.'' @ ''$'' @ ''layer_index+1'' @ [])
          = Inr (''model.layers.'' @ str_int 3 @ [])"
    by (rule Template_substitute_named) (simp_all add: substitution_table_def)
  then have a: "Template_substitute (substitution_table 4 (Some 2)) ''model.layers.$layer_index+1''
                  = Inr ''model.layers.3''"
    by (simp add: str_int_digit)
  have b: "substitute llama (Weight (WeightInfo_named ''model.layers.$layer_index+1''))
             (llama_config (VInt 4)) (Some 2)
           = Inr (Weight (WeightInfo_named ''model.layers.$layer_index+1''))"
    by (simp add: substitute_def substitute_WeightInfo_def t WeightInfo_named_def
          substitute_str_def substitute_opt_def)
  have c: "substitute llama
             (Weight ((WeightInfo_named ''lm_head.weight'')
                        \<lparr>aliases := Some (Some [''model.layers.${layer_index+1}.w''])\<rparr>))
             (llama_config (VInt 4)) (Some 2)
           = Inr (Weight ((WeightInfo_named ''lm_head.weight'')
                        \<lparr>aliases := Some (Some [''model.layers.${layer_index+1}.w''])\<rparr>))"
    by (simp add: substitute_def substitute_WeightInfo_def t WeightInfo_named_def
          substitute_str_def substitute_opt_def)
  from h a b c show ?thesis
    by (simp add: WeightInfo_named_def)
qed

text \<open>
  C7, amended.  When the layer count \<open>N\<close> can be read, the table of \<open>_substitute\<close> holds
  \<open>num_layers\<close>, \<open>num_layers+1\<close> and \<open>num_layers-1\<close> with the values \<open>N\<close>, \<open>N + 1\<close>, \<open>N - 1\<close>,
  and for a layer index \<open>i\<close> also \<open>layer_index\<close>, \<open>layer_index+1\<close> and \<open>layer_index-1\<close> with
  \<open>i\<close>, \<open>i + 1\<close>, \<open>i - 1\<close>.  Let \<open>k\<close> be one of these keys and \<open>v\<close> its value, and let \<open>f\<close> be
  a text in which \<open>${k}\<close> follows a text without delimiter, or in which \<open>$k\<close> does, \<open>k\<close>
  ending in \<open>+1\<close> or \<open>-1\<close> and \<open>f\<close> containing an opening brace; what follows the
  placeholder may hold further placeholders.  Then the template gives for \<open>f\<close> the same
  text with \<open>str v\<close> for the placeholder and the rest substituted, and in each string
  field of a descriptor (\<open>name\<close>, \<open>input_space\<close>, \<open>output_space\<close> of a weight, \<open>name\<close> of a
  procedural space) \<open>f\<close> becomes that text, whatever the other fields hold as long as
  their substitution does not raise.  A text without an opening brace stays as it is.
  This holds for every \<open>i\<close>, so for \<open>0 \<le> i < N\<close>.
\<close>

theorem substitute_arithmetic_placeholders:
  assumes nl: "num_layers M (JsonArchitectureInfo defn) cfg = Inr (VInt N)"
    and kv: "(k, v) \<in> set ([(''num_layers'', N), (''num_layers+1'', N + 1),
                              (''num_layers-1'', N - 1)]
               @ (case idx of
                    None \<Rightarrow> []
                  | Some i \<Rightarrow> [(''layer_index'', i), (''layer_index+1'', i + 1),
                                (''layer_index-1'', i - 1)]))"
    and pre: "CHR ''$'' \<notin> set pre"
    and suf: "Template_substitute (substitution_table N idx) suf = Inr suf'"
    and shape:
      "(f = pre @ ''${'' @ k @ ''}'' @ suf \<and> r = pre @ str_int v @ suf')
       \<or> (f = pre @ ''$'' @ k @ suf \<and> CHR ''{'' \<in> set f
           \<and> k \<in> set [''num_layers+1'', ''num_layers-1'', ''layer_index+1'', ''layer_index-1'']
           \<and> r = pre @ str_int v @ suf')
       \<or> (CHR ''{'' \<notin> set f \<and> r = f)"
  shows "substitutions defn cfg idx = Inr (substitution_table N idx)
       \<and> dom (substitution_table N None) = {''num_layers'', ''num_layers+1'', ''num_layers-1''}
       \<and> dom (substitution_table N (Some j)) =
           {''num_layers'', ''num_layers+1'', ''num_layers-1'',
            ''layer_index'', ''layer_index+1'', ''layer_index-1''}
       \<and> substitution_table N idx k = Some v
       \<and> (CHR ''{'' \<in> set f \<longrightarrow> Template_substitute (substitution_table N idx) f = Inr r)
       \<and> (substitute_opt (substitution_table N idx) (input_space w) = Inr i' \<and>
          substitute_opt (substitution_table N idx) (output_space w) = Inr o'
            \<longrightarrow> substitute defn (Weight (w\<lparr>name := f\<rparr>)) cfg idx
                  = Inr (Weight (w\<lparr>name := r, input_space := i', output_space := o'\<rparr>)))
       \<and> (substitute_str (substitution_table N idx) (name w) = Inr n' \<and>
          substitute_opt (substitution_table N idx) (output_space w) = Inr o'
            \<longrightarrow> substitute defn (Weight (w\<lparr>input_space := Some (Some f)\<rparr>)) cfg idx
                  = Inr (Weight (w\<lparr>name := n', input_space := Some (Some r),
                                   output_space := o'\<rparr>)))
       \<and> (substitute_str (substitution_table N idx) (name w) = Inr n' \<and>
          substitute_opt (substitution_table N idx) (input_space w) = Inr i'
            \<longrightarrow> substitute defn (Weight (w\<lparr>output_space := Some (Some f)\<rparr>)) cfg idx
                  = Inr (Weight (w\<lparr>name := n', input_space := i',
                                   output_space := Some (Some r)\<rparr>)))
       \<and> substitute defn (Space (sp\<lparr>space_name := f\<rparr>)) cfg idx
           = Inr (Space (sp\<lparr>space_name := r\<rparr>))"
proof -
  let ?T = "substitution_table N idx"
  have t: "substitutions defn cfg idx = Inr ?T"
    using nl by (rule substitutions_readable)
  note e = substitution_table_entry [OF kv]
  have s: "substitute_str ?T f = Inr r"
    using shape
  proof (elim disjE conjE)
    assume "f = pre @ ''${'' @ k @ ''}'' @ suf" and "r = pre @ str_int v @ suf'"
    then show ?thesis
      using Template_substitute_braced [OF e(2) e(1) pre suf]
      by (simp add: substitute_str_def)
  next
    assume "f = pre @ ''$'' @ k @ suf" and "CHR ''{'' \<in> set f"
      and "k \<in> set [''num_layers+1'', ''num_layers-1'', ''layer_index+1'', ''layer_index-1'']"
      and "r = pre @ str_int v @ suf'"
    then show ?thesis
      using Template_substitute_named [OF _ e(1) pre suf]
      by (simp add: substitute_str_def)
  next
    assume "CHR ''{'' \<notin> set f" and "r = f"
    then show ?thesis
      by (simp add: substitute_str_def)
  qed
  have g: "CHR ''{'' \<in> set f \<longrightarrow> Template_substitute ?T f = Inr r"
    using s by (auto simp: substitute_str_def)
  have o: "substitute_opt ?T (Some (Some f)) = Inr (Some (Some r))"
    by (simp add: substitute_opt_def s)
  have res: "substitute_str ?T ''residual'' = Inr ''residual''"
    by (simp add: substitute_str_def)
  have a: "substitute_opt ?T (input_space w) = Inr i' \<and>
           substitute_opt ?T (output_space w) = Inr o'
             \<longrightarrow> substitute defn (Weight (w\<lparr>name := f\<rparr>)) cfg idx
                   = Inr (Weight (w\<lparr>name := r, input_space := i', output_space := o'\<rparr>))"
    by (simp add: substitute_def substitute_WeightInfo_def t s)
  have b: "substitute_str ?T (name w) = Inr n' \<and>
           substitute_opt ?T (output_space w) = Inr o'
             \<longrightarrow> substitute defn (Weight (w\<lparr>input_space := Some (Some f)\<rparr>)) cfg idx
                   = Inr (Weight (w\<lparr>name := n', input_space := Some (Some r),
                                    output_space := o'\<rparr>))"
    by (simp add: substitute_def substitute_WeightInfo_def t o)
  have c: "substitute_str ?T (name w) = Inr n' \<and>
           substitute_opt ?T (input_space w) = Inr i'
             \<longrightarrow> substitute defn (Weight (w\<lparr>output_space := Some (Some f)\<rparr>)) cfg idx
                   = Inr (Weight (w\<lparr>name := n', input_space := i',
                                    output_space := Some (Some r)\<rparr>))"
    by (simp add: substitute_def substitute_WeightInfo_def t o)
  have d: "substitute defn (Space (sp\<lparr>space_name := f\<rparr>)) cfg idx
             = Inr (Space (sp\<lparr>space_name := r\<rparr>))"
    by (simp add: substitute_def substitute_ProceduralSpaceInfo_def t s res)
  from t substitution_table_dom(1) [of N] substitution_table_dom(2) [of N j] e(1) g a b c d
  show ?thesis by (intro conjI)
qed

theorem substitute_arithmetic_placeholders_witness:
  "num_layers mistral (JsonArchitectureInfo llama) (llama_config (VInt 4)) = Inr (VInt 4)
   \<and> substitute llama
        (Weight \<lparr>name = ''model.layers.${layer_index+1}.weight'', is_embed = None,
                 is_lm_head = None, input_space = Some (Some ''h_${layer_index}''),
                 output_space = None, optional = None,
                 aliases = Some (Some [''layers.${layer_index}.weight''])\<rparr>)
        (llama_config (VInt 4)) (Some 2)
      = Inr (Weight \<lparr>name = ''model.layers.3.weight'', is_embed = None,
                 is_lm_head = None, input_space = Some (Some ''h_2''),
                 output_space = None, optional = None,
                 aliases = Some (Some [''layers.${layer_index}.weight''])\<rparr>)
   \<and> substitute llama
        (Weight \<lparr>name = ''lm_head.weight'', is_embed = None,
                 is_lm_head = None, input_space = Some (Some ''h_${layer_index-1}''),
                 output_space = None, optional = None, aliases = None\<rparr>)
        (llama_config (VInt 4)) (Some 2)
      = Inr (Weight \<lparr>name = ''lm_head.weight'', is_embed = None,
                 is_lm_head = None, input_space = Some (Some ''h_1''),
                 output_space = None, optional = None, aliases = None\<rparr>)
   \<and> substitute llama
        (Weight \<lparr>name = ''lm_head.weight'', is_embed = None,
                 is_lm_head = None, input_space = None,
                 output_space = Some (Some ''out_${num_layers-1}''), optional = None,
                 aliases = None\<rparr>)
        (llama_config (VInt 4)) (Some 2)
      = Inr (Weight \<lparr>name = ''lm_head.weight'', is_embed = None,
                 is_lm_head = None, input_space = None,
                 output_space = Some (Some ''out_3''), optional = None, aliases = None\<rparr>)
   \<and> substitute llama
        (Space \<lparr>space_name = ''h_${num_layers-1}_$num_layers-1{}'', type = residual,
                inputs = [''h_${num_layers-1}'']\<rparr>)
        (llama_config (VInt 4)) None
      = Inr (Space \<lparr>space_name = ''h_3_3{}'', type = residual,
                inputs = [''h_${num_layers-1}'']\<rparr>)"
proof -
  have h: "num_layers mistral (JsonArchitectureInfo llama) (llama_config (VInt 4)) = Inr (VInt 4)"
    by (simp add: example_defs num_layers_def ArchitectureInfo_num_layers_def
          JsonArchitectureInfo_num_layers_config_key_def getattr_def)
  have plain: "Template_substitute (substitution_table 4 idx) ''.weight'' = Inr ''.weight''"
    "Template_substitute (substitution_table 4 idx) [] = Inr []"
    "Template_substitute (substitution_table 4 idx) ''{}'' = Inr ''{}''" for idx
    by (simp_all add: Template_substitute_plain)
  have inp: "substitute_opt (substitution_table 4 (Some 2)) (Some (Some ''h_${layer_index}''))
               = Inr (Some (Some ''h_2''))"
    using Template_substitute_braced [of "''layer_index''" "substitution_table 4 (Some 2)" 2
            "''h_''" "[]" "[]"]
    by (simp add: substitute_opt_def substitute_str_def substitution_table_def str_int_digit)
  have none: "substitute_opt (substitution_table 4 (Some 2)) None = Inr None"
    by (simp add: substitute_opt_def)
  have nm: "substitute_str (substitution_table 4 (Some 2)) ''lm_head.weight'' = Inr ''lm_head.weight''"
    by (simp add: substitute_str_def)
  have two: "Template_substitute (substitution_table 4 None) ''_$num_layers-1{}'' = Inr ''_3{}''"
    using Template_substitute_named [of "''num_layers-1''" "substitution_table 4 None" 3
            "''_''" "''{}''" "''{}''"] plain(3) [of None]
    by (simp add: substitution_table_def str_int_digit)
  have a: "substitute llama
             (Weight (\<lparr>name = ''x'', is_embed = None, is_lm_head = None,
                       input_space = Some (Some ''h_${layer_index}''), output_space = None,
                       optional = None, aliases = Some (Some [''layers.${layer_index}.weight''])\<rparr>
                      \<lparr>name := ''model.layers.${layer_index+1}.weight''\<rparr>))
             (llama_config (VInt 4)) (Some 2)
           = Inr (Weight (\<lparr>name = ''x'', is_embed = None, is_lm_head = None,
                       input_space = Some (Some ''h_${layer_index}''), output_space = None,
                       optional = None, aliases = Some (Some [''layers.${layer_index}.weight''])\<rparr>
                      \<lparr>name := ''model.layers.3.weight'', input_space := Some (Some ''h_2''),
                        output_space := None\<rparr>))"
    using substitute_arithmetic_placeholders
            [where k = "''layer_index+1''" and v = 3 and idx = "Some 2"
               and pre = "''model.layers.''" and suf = "''.weight''" and suf' = "''.weight''"
               and f = "''model.layers.${layer_index+1}.weight''"
               and r = "''model.layers.3.weight''"
               and w = "\<lparr>name = ''x'', is_embed = None, is_lm_head = None,
                 input_space = Some (Some ''h_${layer_index}''), output_space = None,
                 optional = None, aliases = Some (Some [''layers.${layer_index}.weight''])\<rparr>"
               and i' = "Some (Some ''h_2'')" and o' = None, OF h]
          plain(1) [of "Some 2"] inp none
    by (simp add: str_int_digit)
  have b: "substitute llama
             (Weight (\<lparr>name = ''lm_head.weight'', is_embed = None, is_lm_head = None,
                       input_space = None, output_space = None,
                       optional = None, aliases = None\<rparr>
                      \<lparr>input_space := Some (Some ''h_${layer_index-1}'')\<rparr>))
             (llama_config (VInt 4)) (Some 2)
           = Inr (Weight (\<lparr>name = ''lm_head.weight'', is_embed = None, is_lm_head = None,
                       input_space = None, output_space = None,
                       optional = None, aliases = None\<rparr>
                      \<lparr>name := ''lm_head.weight'', input_space := Some (Some ''h_1''),
                        output_space := None\<rparr>))"
    using substitute_arithmetic_placeholders
            [where k = "''layer_index-1''" and v = 1 and idx = "Some 2"
               and pre = "''h_''" and suf = "[]" and suf' = "[]"
               and f = "''h_${layer_index-1}''" and r = "''h_1''"
               and w = "\<lparr>name = ''lm_head.weight'', is_embed = None, is_lm_head = None,
                 input_space = None, output_space = None, optional = None, aliases = None\<rparr>"
               and n' = "''lm_head.weight''" and o' = None, OF h]
          plain(2) [of "Some 2"] none nm
    by (simp add: str_int_digit)
  have b': "substitute llama
             (Weight (\<lparr>name = ''lm_head.weight'', is_embed = None, is_lm_head = None,
                       input_space = None, output_space = None,
                       optional = None, aliases = None\<rparr>
                      \<lparr>output_space := Some (Some ''out_${num_layers-1}'')\<rparr>))
             (llama_config (VInt 4)) (Some 2)
           = Inr (Weight (\<lparr>name = ''lm_head.weight'', is_embed = None, is_lm_head = None,
                       input_space = None, output_space = None,
                       optional = None, aliases = None\<rparr>
                      \<lparr>name := ''lm_head.weight'', input_space := None,
                        output_space := Some (Some ''out_3'')\<rparr>))"
    using substitute_arithmetic_placeholders
            [where k = "''num_layers-1''" and v = 3 and idx = "Some 2"
               and pre = "''out_''" and suf = "[]" and suf' = "[]"
               and f = "''out_${num_layers-1}''" and r = "''out_3''"
               and w = "\<lparr>name = ''lm_head.weight'', is_embed = None, is_lm_head = None,
                 input_space = None, output_space = None, optional = None, aliases = None\<rparr>"
               and n' = "''lm_head.weight''" and i' = None, OF h]
          plain(2) [of "Some 2"] none nm
    by (simp add: str_int_digit)
  have c: "substitute llama
             (Space (\<lparr>space_name = ''x'', type = residual, inputs = [''h_${num_layers-1}'']\<rparr>
                     \<lparr>space_name := ''h_${num_layers-1}_$num_layers-1{}''\<rparr>))
             (llama_config (VInt 4)) None
           = Inr (Space (\<lparr>space_name = ''x'', type = residual, inputs = [''h_${num_layers-1}'']\<rparr>
                     \<lparr>space_name := ''h_3_3{}''\<rparr>))"
    using substitute_arithmetic_placeholders
            [where k = "''num_layers-1''" and v = 3 and idx = None
               and pre = "''h_''" and suf = "''_$num_layers-1{}''" and suf' = "''_3{}''"
               and f = "''h_${num_layers-1}_$num_layers-1{}''" and r = "''h_3_3{}''"
               and sp = "\<lparr>space_name = ''x'', type = residual,
                          inputs = [''h_${num_layers-1}'']\<rparr>", OF h]
          two
    by (simp add: str_int_digit)
  from h a b b' c show ?thesis by simp
qed

text \<open>
  C8.  When the layer count can be read, substitution returns a descriptor unchanged if
  none of its string fields has a placeholder: each of them lacks the delimiter \<open>$\<close> of a
  placeholder or lacks the brace the code looks for.  The string fields of a weight
  descriptor are \<open>name\<close> and, when set to a string, \<open>input_space\<close> and \<open>output_space\<close>; the
  one of a procedural space is \<open>name\<close>.  Fields that were never set stay unset.
\<close>

theorem substitute_placeholder_free:
  assumes nl: "num_layers M (JsonArchitectureInfo defn) cfg = Inr (VInt N)"
  shows "((CHR ''$'' \<notin> set (name w) \<or> CHR ''{'' \<notin> set (name w)) \<and>
          (\<forall>s. input_space w = Some (Some s) \<longrightarrow> CHR ''$'' \<notin> set s \<or> CHR ''{'' \<notin> set s) \<and>
          (\<forall>s. output_space w = Some (Some s) \<longrightarrow> CHR ''$'' \<notin> set s \<or> CHR ''{'' \<notin> set s)
            \<longrightarrow> substitute defn (Weight w) cfg layer_idx = Inr (Weight w))
       \<and> (CHR ''$'' \<notin> set (space_name sp) \<or> CHR ''{'' \<notin> set (space_name sp)
            \<longrightarrow> substitute defn (Space sp) cfg layer_idx = Inr (Space sp))"
proof -
  obtain tbl where t: "substitutions defn cfg layer_idx = Inr tbl"
    using substitutions_readable [OF nl] by blast
  have weight: "substitute defn (Weight w) cfg layer_idx = Inr (Weight w)"
    if h: "(CHR ''$'' \<notin> set (name w) \<or> CHR ''{'' \<notin> set (name w)) \<and>
           (\<forall>s. input_space w = Some (Some s) \<longrightarrow> CHR ''$'' \<notin> set s \<or> CHR ''{'' \<notin> set s) \<and>
           (\<forall>s. output_space w = Some (Some s) \<longrightarrow> CHR ''$'' \<notin> set s \<or> CHR ''{'' \<notin> set s)"
  proof -
    have a: "substitute_str tbl (name w) = Inr (name w)"
      using h by (simp add: substitute_str_untouched)
    have b: "substitute_opt tbl (input_space w) = Inr (input_space w)"
      using h by (intro substitute_opt_untouched) blast
    have c: "substitute_opt tbl (output_space w) = Inr (output_space w)"
      using h by (intro substitute_opt_untouched) blast
    show ?thesis
      by (simp add: substitute_def substitute_WeightInfo_def t a b c)
  qed
  have space: "substitute defn (Space sp) cfg layer_idx = Inr (Space sp)"
    if h: "CHR ''$'' \<notin> set (space_name sp) \<or> CHR ''{'' \<notin> set (space_name sp)"
  proof -
    have a: "substitute_str tbl (space_name sp) = Inr (space_name sp)"
      using h by (simp add: substitute_str_untouched)
    have b: "substitute_str tbl ''residual'' = Inr ''residual''"
      by (simp add: substitute_str_def)
    show ?thesis
      by (simp add: substitute_def substitute_ProceduralSpaceInfo_def t a b)
  qed
  from weight space show ?thesis by blast
qed

theorem substitute_placeholder_free_witness:
  "num_layers mistral (JsonArchitectureInfo llama) (llama_config (VInt 4)) = Inr (VInt 4)
   \<and> substitute llama
        (Weight \<lparr>name = ''lm_head.weight'', is_embed = None, is_lm_head = Some True,
                 input_space = Some (Some ''running_residual''), output_space = None,
                 optional = None, aliases = Some (Some [''model.lm_head.weight''])\<rparr>)
        (llama_config (VInt 4)) (Some 2)
      = Inr (Weight \<lparr>name = ''lm_head.weight'', is_embed = None, is_lm_head = Some True,
                 input_space = Some (Some ''running_residual''), output_space = None,
                 optional = None, aliases = Some (Some [''model.lm_head.weight''])\<rparr>)
   \<and> substitute llama
        (Space \<lparr>space_name = ''running_residual'', type = residual, inputs = [''h_0'']\<rparr>)
        (llama_config (VInt 4)) None
      = Inr (Space \<lparr>space_name = ''running_residual'', type = residual, inputs = [''h_0'']\<rparr>)"
proof -
  have h: "num_layers mistral (JsonArchitectureInfo llama) (llama_config (VInt 4)) = Inr (VInt 4)"
    by (simp add: example_defs num_layers_def ArchitectureInfo_num_layers_def
          JsonArchitectureInfo_num_layers_config_key_def getattr_def)
  show ?thesis
    using h
      substitute_placeholder_free [OF h,
        of "\<lparr>name = ''lm_head.weight'', is_embed = None, is_lm_head = Some True,
             input_space = Some (Some ''running_residual''), output_space = None,
             optional = None, aliases = Some (Some [''model.lm_head.weight''])\<rparr>"
           "Some 2" "\<lparr>space_name = ''running_residual'', type = residual, inputs = [''h_0'']\<rparr>"]
      substitute_placeholder_free [OF h,
        of "\<lparr>name = ''lm_head.weight'', is_embed = None, is_lm_head = Some True,
             input_space = Some (Some ''running_residual''), output_space = None,
             optional = None, aliases = Some (Some [''model.lm_head.weight''])\<rparr>"
           None "\<lparr>space_name = ''running_residual'', type = residual, inputs = [''h_0'']\<rparr>"]
    by simp
qed



text \<open>
  C10.  A configuration whose list of architecture names does not have exactly one
  element, so an empty list or a list of two or more, is rejected by the resolver with an
  error.
\<close>

theorem load_architecture_info_not_one_name:
  assumes "architectures cfg = Some archs" and "length archs \<noteq> 1"
  shows "load_architecture_info int_of_str NAME_TO_ARCH cfg
           = Inl (RuntimeError ''More than one architecture in config?'')"
  using assms by (simp add: load_architecture_info_def)

theorem load_architecture_info_not_one_name_witness:
  "load_architecture_info Map.empty (snd (load_all_architectures [llama, mistral]))
     \<lparr>architectures = Some [], model_type = ''llama'', attrs = Map.empty\<rparr>
     = Inl (RuntimeError ''More than one architecture in config?'')
   \<and> load_architecture_info Map.empty (snd (load_all_architectures [llama, mistral]))
     \<lparr>architectures = Some [''LlamaForCausalLM'', ''MistralForCausalLM''],
      model_type = ''llama'', attrs = Map.empty\<rparr>
     = Inl (RuntimeError ''More than one architecture in config?'')"
  using load_architecture_info_not_one_name
          [of "\<lparr>architectures = Some [], model_type = ''llama'', attrs = Map.empty\<rparr>" "[]"
              Map.empty "snd (load_all_architectures [llama, mistral])"]
        load_architecture_info_not_one_name
          [of "\<lparr>architectures = Some [''LlamaForCausalLM'', ''MistralForCausalLM''],
                model_type = ''llama'', attrs = Map.empty\<rparr>"
              "[''LlamaForCausalLM'', ''MistralForCausalLM'']"
              Map.empty "snd (load_all_architectures [llama, mistral])"]
  by simp

end
